theory Spec2Isabelle
  imports Main "HOL-Library.Sublist"
begin

section \<open>The store behind \<^verbatim>\<open>air_bnb_database.db\<close>\<close>

text \<open>
  The script \<^verbatim>\<open>database-adv-script/script.py\<close> is a straight line of calls into the
  \<^verbatim>\<open>sqlite3\<close> driver. Each call is embedded as one function on an explicit
  connection state; the three SQL texts are embedded by what the engine does for the
  schema that the script itself declares:
  \<^verbatim>\<open>users (id INTEGER PRIMARY KEY, name TEXT NOT NULL, email TEXT UNIQUE NOT NULL)\<close>.

  A row is the tuple the driver hands back, \<^verbatim>\<open>(id, name, email)\<close>: a Python int and
  two strings. Characters are code points below 256.
\<close>

type_synonym row = "int \<times> string \<times> string"

text \<open>The database file holds at most the one table; \<open>None\<close> is "no such table".\<close>

record database =
  users :: "row list option"

datatype "constraint" = NOT_NULL string | UNIQUE string

text \<open>
  The two exceptions of the driver that the statements can raise. The specification's
  ConstraintViolation is \<open>IntegrityError\<close>.
\<close>

datatype error = IntegrityError "constraint" | OperationalError string

text \<open>
  The engine has one source of randomness, which it uses for nothing but the choice of an
  id when the ids of a table are used up to the largest one, \<open>2^63 - 1\<close>: it then
  draws candidates between 1 and \<open>2^62\<close> until one is not in use. A random source is
  given by the id this search ends with, for each list of ids in use: an id that is not
  in use, at least 1, and at most \<open>2^62\<close> as long as fewer than \<open>2^62\<close> ids are in
  use. (The engine gives the search up, with SQLITE_FULL, only after a hundred candidates
  in a row were all in use; a source is one on which the search ends with an id.)
  \<open>least_free\<close>, the smallest id from 1 on that is not in use, is such a choice.
\<close>

definition least_free :: "int list \<Rightarrow> int" where
  "least_free ids = hd (filter (\<lambda>v. v \<notin> set ids) [1..int (length ids) + 1])"

typedef random_source =
  "{f :: int list \<Rightarrow> int.
      \<forall>ids. f ids \<notin> set ids \<and> 1 \<le> f ids \<and> (length ids < 2 ^ 62 \<longrightarrow> f ids \<le> 2 ^ 62)}"
proof -
  have "least_free ids \<notin> set ids \<and> 1 \<le> least_free ids
          \<and> (length ids < 2 ^ 62 \<longrightarrow> least_free ids \<le> 2 ^ 62)" for ids
  proof -
    let ?n = "int (length ids)"
    let ?free = "filter (\<lambda>v. v \<notin> set ids) [1..?n + 1]"
    have "\<not> {1..?n + 1} \<subseteq> set ids"
    proof
      assume "{1..?n + 1} \<subseteq> set ids"
      then have "card {1..?n + 1} \<le> card (set ids)"
        by (intro card_mono) auto
      moreover have "card (set ids) \<le> length ids"
        by (rule card_length)
      ultimately show False by simp
    qed
    then have "?free \<noteq> []"
      by (auto simp: filter_empty_conv)
    then have "hd ?free \<in> set ?free"
      by (rule hd_in_set)
    then have "least_free ids \<notin> set ids \<and> 1 \<le> least_free ids \<and> least_free ids \<le> ?n + 1"
      by (simp add: least_free_def)
    then show ?thesis by auto
  qed
  then show ?thesis by blast
qed

definition random_rowid :: "random_source \<Rightarrow> int list \<Rightarrow> int" where
  "random_rowid r ids = Rep_random_source r ids"

text \<open>Two ways to name a source: the one of \<open>least_free\<close>, and one that draws \<open>k\<close> first.\<close>

definition least_free_source :: random_source where
  "least_free_source = Abs_random_source least_free"

definition first_candidate :: "int \<Rightarrow> random_source \<Rightarrow> random_source" where
  "first_candidate k r =
     Abs_random_source
       (\<lambda>ids. if 1 \<le> k \<and> k \<le> 2 ^ 62 \<and> k \<notin> set ids then k else random_rowid r ids)"

text \<open>
  A connection: what is on disk (\<open>durable\<close>), the working copy of the transaction that
  is open, if one is (\<open>pending\<close>), whether the handle is still open, and the random
  source of the engine behind it.
\<close>

record connection =
  durable :: database
  pending :: "database option"
  is_open :: bool
  prng :: random_source

definition view :: "connection \<Rightarrow> database" where
  "view c = (case pending c of None \<Rightarrow> durable c | Some d \<Rightarrow> d)"

text \<open>
  \<^verbatim>\<open>sqlite3.connect('air_bnb_database.db')\<close>: the file is created when it does not
  exist (\<open>None\<close>), otherwise opened as it is.
\<close>

definition connect :: "random_source \<Rightarrow> database option \<Rightarrow> connection" where
  "connect r file =
     \<lparr>durable = (case file of None \<Rightarrow> \<lparr>users = None\<rparr> | Some d \<Rightarrow> d),
      pending = None, is_open = True, prng = r\<rparr>"

datatype statement =
    CREATE_TABLE_IF_NOT_EXISTS_users
  | INSERT_INTO_users "string option" "string option"
  | SELECT_FROM_users

text \<open>\<^verbatim>\<open>CREATE TABLE IF NOT EXISTS users (...)\<close>: nothing happens when the table is there.\<close>

definition create_users :: "database \<Rightarrow> database" where
  "create_users d = (case users d of None \<Rightarrow> d\<lparr>users := Some []\<rparr> | Some rows \<Rightarrow> d)"

text \<open>
  \<^verbatim>\<open>id INTEGER PRIMARY KEY\<close> with no value supplied: the engine assigns 1 in an empty
  table and otherwise one more than the largest id in the table, unless that is the
  largest id there is; then the id comes from the random search.
\<close>

definition MAX_ROWID :: int where
  "MAX_ROWID = 9223372036854775807"

definition new_rowid :: "random_source \<Rightarrow> row list \<Rightarrow> int" where
  "new_rowid r rows =
     (if rows = [] then 1
      else let v = Max (set (map fst rows))
           in if v < MAX_ROWID then v + 1 else random_rowid r (map fst rows))"

definition emails :: "row list \<Rightarrow> string list" where
  "emails rows = map (\<lambda>(i, n, e). e) rows"

text \<open>
  \<^verbatim>\<open>INSERT INTO users (name, email) VALUES (name, email)\<close>, a value being \<open>None\<close> for
  SQL NULL. The NOT NULL columns are checked in the order of the schema, then the
  UNIQUE index on \<^verbatim>\<open>email\<close>; a failed statement changes nothing.
\<close>

definition insert_users ::
  "random_source \<Rightarrow> string option \<Rightarrow> string option \<Rightarrow> database \<Rightarrow> error + database" where
  "insert_users r name email d =
     (case users d of
        None \<Rightarrow> Inl (OperationalError ''no such table: users'')
      | Some rows \<Rightarrow>
          (case name of
             None \<Rightarrow> Inl (IntegrityError (NOT_NULL ''users.name''))
           | Some n \<Rightarrow>
               (case email of
                  None \<Rightarrow> Inl (IntegrityError (NOT_NULL ''users.email''))
                | Some e \<Rightarrow>
                    if e \<in> set (emails rows)
                    then Inl (IntegrityError (UNIQUE ''users.email''))
                    else Inr (d\<lparr>users := Some (rows @ [(new_rowid r rows, n, e)])\<rparr>))))"

text \<open>\<^verbatim>\<open>SELECT * FROM users\<close>: no ORDER BY, the table is scanned in the order of its ids.\<close>

definition select_users :: "database \<Rightarrow> error + row list" where
  "select_users d =
     (case users d of
        None \<Rightarrow> Inl (OperationalError ''no such table: users'')
      | Some rows \<Rightarrow> Inr (sort_key fst rows))"

text \<open>
  \<^verbatim>\<open>cursor.execute(sql)\<close> returns what was raised or the rows the cursor holds, and
  the connection afterwards. The driver runs a CREATE statement without opening a
  transaction (outside one it is on disk at once) and opens one before an INSERT; the
  transaction stays open when the INSERT fails.
\<close>

fun execute :: "statement \<Rightarrow> connection \<Rightarrow> (error + row list) \<times> connection" where
  "execute CREATE_TABLE_IF_NOT_EXISTS_users c =
     (Inr [],
      case pending c of
        None \<Rightarrow> c\<lparr>durable := create_users (durable c)\<rparr>
      | Some d \<Rightarrow> c\<lparr>pending := Some (create_users d)\<rparr>)"
| "execute (INSERT_INTO_users name email) c =
     (case users (view c) of
        None \<Rightarrow> (Inl (OperationalError ''no such table: users''), c)
      | Some rows \<Rightarrow>
          (case insert_users (prng c) name email (view c) of
             Inl e \<Rightarrow> (Inl e, c\<lparr>pending := Some (view c)\<rparr>)
           | Inr d \<Rightarrow> (Inr [], c\<lparr>pending := Some d\<rparr>)))"
| "execute SELECT_FROM_users c =
     (case select_users (view c) of
        Inl e \<Rightarrow> (Inl e, c)
      | Inr rows \<Rightarrow> (Inr rows, c))"

text \<open>\<^verbatim>\<open>connection.commit()\<close>: the working copy becomes the file's content.\<close>

definition commit :: "connection \<Rightarrow> connection" where
  "commit c = c\<lparr>durable := view c, pending := None\<rparr>"

text \<open>\<^verbatim>\<open>cursor.fetchall()\<close>: all rows the cursor holds.\<close>

definition fetchall :: "row list \<Rightarrow> row list" where
  "fetchall cursor = cursor"

text \<open>\<^verbatim>\<open>connection.close()\<close>: what was not committed is dropped, the handle is released.\<close>

definition close :: "connection \<Rightarrow> connection" where
  "close c = c\<lparr>pending := None, is_open := False\<rparr>"

section \<open>What \<^verbatim>\<open>print(row)\<close> writes\<close>

text \<open>Python's \<^verbatim>\<open>repr\<close> of an int: decimal digits, a minus sign when negative.\<close>

fun repr_nat :: "nat \<Rightarrow> string" where
  "repr_nat n =
     (if n < 10 then [char_of (48 + n)]
      else repr_nat (n div 10) @ [char_of (48 + n mod 10)])"

declare repr_nat.simps [simp del]

definition repr_int :: "int \<Rightarrow> string" where
  "repr_int i = (if i < 0 then CHR ''-'' # repr_nat (nat (- i)) else repr_nat (nat i))"

text \<open>
  Python's \<^verbatim>\<open>repr\<close> of a str: single quotes, unless the text has a single quote and
  no double quote; the quote in use and the backslash are escaped, tab, newline and
  carriage return are written \<^verbatim>\<open>\t \n \r\<close>, every other character that is not printable
  is written \<^verbatim>\<open>\xhh\<close>.
\<close>

definition printable :: "char \<Rightarrow> bool" where
  "printable c =
     (let n = (of_char c :: nat)
      in (32 \<le> n \<and> n < 127) \<or> (161 \<le> n \<and> n \<noteq> 173))"

definition hexdigit :: "nat \<Rightarrow> char" where
  "hexdigit d = (if d < 10 then char_of (48 + d) else char_of (87 + d))"

definition repr_char :: "char \<Rightarrow> char \<Rightarrow> string" where
  "repr_char quote c =
     (if c = quote \<or> c = CHR 0x5C then [CHR 0x5C, c]
      else if c = CHR 0x09 then [CHR 0x5C, CHR ''t'']
      else if c = CHR 0x0A then [CHR 0x5C, CHR ''n'']
      else if c = CHR 0x0D then [CHR 0x5C, CHR ''r'']
      else if printable c then [c]
      else [CHR 0x5C, CHR ''x'',
            hexdigit ((of_char c :: nat) div 16), hexdigit ((of_char c :: nat) mod 16)])"

definition repr_str :: "string \<Rightarrow> string" where
  "repr_str s =
     (let quote = (if CHR 0x27 \<in> set s \<and> CHR 0x22 \<notin> set s then CHR 0x22 else CHR 0x27)
      in quote # concat (map (repr_char quote) s) @ [quote])"

text \<open>The \<^verbatim>\<open>repr\<close> of the tuple: the fields in their order, separated by a comma and a space.\<close>

fun repr_row :: "row \<Rightarrow> string" where
  "repr_row (i, n, e) = ''('' @ repr_int i @ '', '' @ repr_str n @ '', '' @ repr_str e @ '')''"

text \<open>Standard output is the list of lines written so far; \<^verbatim>\<open>print\<close> adds one.\<close>

definition print :: "string \<Rightarrow> string list \<Rightarrow> string list" where
  "print line out = out @ [line]"

fun print_rows :: "row list \<Rightarrow> string list \<Rightarrow> string list" where
  "print_rows [] out = out"
| "print_rows (r # rows) out = print_rows rows (print (repr_row r) out)"

section \<open>The script\<close>

text \<open>
  How a run ends: the file it leaves, the lines on standard output, the exception that
  ended the process (if one did) and the connection as the last statement left it. To
  say what was on disk when the rows were read, \<open>read_from\<close> keeps the connection as it
  was when the SELECT of line 20 had run (\<open>None\<close> in a run that read no rows).
\<close>

record outcome =
  store :: "database option"
  stdout :: "string list"
  raised :: "error option"
  conn :: connection
  read_from :: "connection option"

text \<open>
  Nothing in the script catches an exception: the statements after the one that raised
  do not run, and the file keeps what was committed.
\<close>

definition uncaught :: "error \<Rightarrow> connection \<Rightarrow> string list \<Rightarrow> outcome" where
  "uncaught e c out =
     \<lparr>store = Some (durable c), stdout = out, raised = Some e, conn = c, read_from = None\<rparr>"

text \<open>
  Lines 20 to 29, "fetch and display the data" and "close the connection": the query,
  \<^verbatim>\<open>fetchall\<close>, the header, one \<^verbatim>\<open>print\<close> for each row, \<^verbatim>\<open>close\<close>.
\<close>

definition fetch_and_display :: "connection \<Rightarrow> outcome" where
  "fetch_and_display connection =
     (case execute SELECT_FROM_users connection of
        (Inl e, connection) \<Rightarrow> uncaught e connection []
      | (Inr cursor, connection) \<Rightarrow>
          (let read = connection;
               rows = fetchall cursor;
               out = print ''Users in the database:'' [];
               out = print_rows rows out;
               connection = close connection
           in \<lparr>store = Some (durable connection), stdout = out, raised = None,
               conn = connection, read_from = Some read\<rparr>))"

text \<open>
  Lines 4 to 17, then the lines above. The random source \<open>r\<close> is that of the engine in
  this run.
\<close>

definition script :: "random_source \<Rightarrow> database option \<Rightarrow> outcome" where
  "script r file =
     (let connection = connect r file in
      case execute CREATE_TABLE_IF_NOT_EXISTS_users connection of
        (Inl e, connection) \<Rightarrow> uncaught e connection []
      | (Inr _, connection) \<Rightarrow>
          (case execute (INSERT_INTO_users (Some ''John Doe'') (Some ''mosaproject1@gmail.com''))
                  connection of
             (Inl e, connection) \<Rightarrow> uncaught e connection []
           | (Inr _, connection) \<Rightarrow>
               (let connection = commit connection
                in fetch_and_display connection)))"



section \<open>Notions the properties are stated with\<close>

text \<open>The rows of the table in a file; none when the file or the table is not there.\<close>

definition rows_of :: "database option \<Rightarrow> row list" where
  "rows_of file =
     (case file of
        None \<Rightarrow> []
      | Some d \<Rightarrow> (case users d of None \<Rightarrow> [] | Some rows \<Rightarrow> rows))"

text \<open>What the schema promises of a table: no id twice, no email twice.\<close>

definition table_ok :: "row list \<Rightarrow> bool" where
  "table_ok rows = (distinct (map fst rows) \<and> distinct (emails rows))"

definition db_ok :: "database \<Rightarrow> bool" where
  "db_ok d = (case users d of None \<Rightarrow> True | Some rows \<Rightarrow> table_ok rows)"

definition store_ok :: "database option \<Rightarrow> bool" where
  "store_ok file = table_ok (rows_of file)"

definition conn_ok :: "connection \<Rightarrow> bool" where
  "conn_ok c = (db_ok (durable c) \<and> db_ok (view c))"

text \<open>The files that runs of the script produce, starting with no file.\<close>

inductive reachable :: "database option \<Rightarrow> bool" where
  fresh: "reachable None"
| run: "reachable file \<Longrightarrow> reachable (store (script r file))"

text \<open>
  A table is sequential when its next id follows from its rows alone: it is empty or its
  largest id is below \<open>2^63 - 1\<close>.
\<close>

definition sequential :: "row list \<Rightarrow> bool" where
  "sequential rows = (rows = [] \<or> Max (set (map fst rows)) < MAX_ROWID)"

section \<open>Facts about the operations\<close>

lemma random_rowid_props:
  "random_rowid r ids \<notin> set ids" "1 \<le> random_rowid r ids"
  "length ids < 2 ^ 62 \<Longrightarrow> random_rowid r ids \<le> 2 ^ 62"
  using Rep_random_source [of r] by (simp_all add: random_rowid_def)

lemma random_rowid_first_candidate:
  "random_rowid (first_candidate k r) ids =
     (if 1 \<le> k \<and> k \<le> 2 ^ 62 \<and> k \<notin> set ids then k else random_rowid r ids)"
proof -
  have "(\<lambda>ids. if 1 \<le> k \<and> k \<le> 2 ^ 62 \<and> k \<notin> set ids then k else random_rowid r ids)
          \<in> {f :: int list \<Rightarrow> int.
      \<forall>ids. f ids \<notin> set ids \<and> 1 \<le> f ids \<and> (length ids < 2 ^ 62 \<longrightarrow> f ids \<le> 2 ^ 62)}"
    using random_rowid_props [where r = r] by simp
  then show ?thesis
    by (simp add: first_candidate_def random_rowid_def [of "Abs_random_source _"]
        Abs_random_source_inverse)
qed

lemma new_rowid_sequential:
  "sequential rows \<Longrightarrow> new_rowid r rows = (if rows = [] then 1 else Max (set (map fst rows)) + 1)"
  by (cases "rows = []") (simp_all add: new_rowid_def sequential_def)

lemma new_rowid_fresh: "new_rowid r rows \<notin> fst ` set rows"
proof (cases "rows = [] \<or> \<not> Max (set (map fst rows)) < MAX_ROWID")
  case True
  then show ?thesis
    using random_rowid_props(1) [of r "map fst rows"] by (auto simp: new_rowid_def Let_def)
next
  case False
  have "i \<le> Max (set (map fst rows))" if "i \<in> fst ` set rows" for i
    using that by (intro Max_ge) auto
  then have "i < new_rowid r rows" if "i \<in> fst ` set rows" for i
    using that False by (fastforce simp: new_rowid_def)
  then show ?thesis by blast
qed

lemma print_rows_lines: "print_rows rows out = out @ map repr_row rows"
  by (induction rows arbitrary: out) (simp_all add: print_def)

lemma fetch_and_display_table:
  assumes "users (view c) = Some rows"
  shows "fetch_and_display c =
           \<lparr>store = Some (durable c),
            stdout = ''Users in the database:'' # map repr_row (sort_key fst rows),
            raised = None, conn = close c, read_from = Some c\<rparr>"
  using assms
  by (simp add: fetch_and_display_def select_users_def fetchall_def print_rows_lines
      print_def close_def)

lemma created: "create_users (durable (connect r file)) = \<lparr>users = Some (rows_of file)\<rparr>"
  by (simp add: create_users_def connect_def rows_of_def split: option.splits)

lemma execute_create_connect:
  "execute CREATE_TABLE_IF_NOT_EXISTS_users (connect r file) =
     (Inr [], \<lparr>durable = \<lparr>users = Some (rows_of file)\<rparr>, pending = None, is_open = True,
               prng = r\<rparr>)"
  using created [of r "file"] by (simp add: connect_def)

lemma script_duplicate:
  assumes "''mosaproject1@gmail.com'' \<in> set (emails (rows_of file))"
  shows "script r file =
           \<lparr>store = Some \<lparr>users = Some (rows_of file)\<rparr>, stdout = [],
            raised = Some (IntegrityError (UNIQUE ''users.email'')),
            conn = \<lparr>durable = \<lparr>users = Some (rows_of file)\<rparr>,
                    pending = Some \<lparr>users = Some (rows_of file)\<rparr>, is_open = True,
                    prng = r\<rparr>,
            read_from = None\<rparr>"
  unfolding script_def Let_def execute_create_connect
  using assms by (simp add: view_def insert_users_def uncaught_def)

lemma script_inserts:
  assumes "''mosaproject1@gmail.com'' \<notin> set (emails (rows_of file))"
  shows "script r file =
           \<lparr>store = Some \<lparr>users = Some (rows_of file @
                      [(new_rowid r (rows_of file), ''John Doe'', ''mosaproject1@gmail.com'')])\<rparr>,
            stdout = ''Users in the database:'' #
                      map repr_row (sort_key fst (rows_of file @
                      [(new_rowid r (rows_of file), ''John Doe'', ''mosaproject1@gmail.com'')])),
            raised = None,
            conn = \<lparr>durable = \<lparr>users = Some (rows_of file @
                      [(new_rowid r (rows_of file), ''John Doe'', ''mosaproject1@gmail.com'')])\<rparr>,
                    pending = None, is_open = False, prng = r\<rparr>,
            read_from = Some \<lparr>durable = \<lparr>users = Some (rows_of file @
                      [(new_rowid r (rows_of file), ''John Doe'', ''mosaproject1@gmail.com'')])\<rparr>,
                    pending = None, is_open = True, prng = r\<rparr>\<rparr>"
proof -
  let ?c = "\<lparr>durable = \<lparr>users = Some (rows_of file)\<rparr>, pending = None, is_open = True,
             prng = r\<rparr>"
  let ?rows = "rows_of file @ [(new_rowid r (rows_of file), ''John Doe'', ''mosaproject1@gmail.com'')]"
  have ins: "execute (INSERT_INTO_users (Some ''John Doe'') (Some ''mosaproject1@gmail.com'')) ?c =
               (Inr [], ?c\<lparr>pending := Some \<lparr>users = Some ?rows\<rparr>\<rparr>)"
    using assms by (simp add: view_def insert_users_def)
  have v: "users (view (commit (?c\<lparr>pending := Some \<lparr>users = Some ?rows\<rparr>\<rparr>))) = Some ?rows"
    by (simp add: commit_def view_def)
  show ?thesis
    unfolding script_def Let_def execute_create_connect
    by (simp only: ins prod.case sum.case fetch_and_display_table [OF v])
       (simp add: commit_def close_def view_def)
qed

lemma raised_None_iff:
  "raised (script r file) = None \<longleftrightarrow> ''mosaproject1@gmail.com'' \<notin> set (emails (rows_of file))"
  by (cases "''mosaproject1@gmail.com'' \<in> set (emails (rows_of file))")
     (simp_all add: script_duplicate script_inserts)

lemma table_ok_append:
  assumes "table_ok rows" and "e \<notin> set (emails rows)"
  shows "table_ok (rows @ [(new_rowid r rows, n, e)])"
  using assms new_rowid_fresh [of r rows] by (simp add: table_ok_def emails_def)

lemma insert_users_ok:
  assumes "db_ok d" and "insert_users r name email d = Inr d'"
  shows "db_ok d'"
  using assms
  by (auto simp: insert_users_def db_ok_def table_ok_append
      split: option.splits if_splits)

lemma create_users_ok: "db_ok d \<Longrightarrow> db_ok (create_users d)"
  by (auto simp: create_users_def db_ok_def table_ok_def emails_def split: option.splits)

lemma execute_ok:
  assumes "conn_ok c"
  shows "conn_ok (snd (execute st c))"
proof (cases st)
  case CREATE_TABLE_IF_NOT_EXISTS_users
  then show ?thesis
    using assms by (auto simp: conn_ok_def view_def create_users_ok split: option.splits)
next
  case (INSERT_INTO_users name email)
  then show ?thesis
    using assms
    by (auto simp: conn_ok_def view_def dest: insert_users_ok split: option.splits sum.splits)
next
  case SELECT_FROM_users
  then show ?thesis
    using assms by (simp split: sum.splits)
qed

lemma commit_ok: "conn_ok c \<Longrightarrow> conn_ok (commit c)"
  by (simp add: conn_ok_def commit_def view_def)

lemma close_ok: "conn_ok c \<Longrightarrow> conn_ok (close c)"
  by (simp add: conn_ok_def close_def view_def)

lemma rows_of_Some [simp]: "rows_of (Some \<lparr>users = Some rows\<rparr>) = rows"
  by (simp add: rows_of_def)

lemma script_ok:
  assumes "store_ok file"
  shows "store_ok (store (script r file))"
proof (cases "''mosaproject1@gmail.com'' \<in> set (emails (rows_of file))")
  case True
  then show ?thesis using assms by (simp add: script_duplicate store_ok_def)
next
  case False
  then show ?thesis using assms by (simp add: script_inserts store_ok_def table_ok_append)
qed

lemma script_keeps_rows: "prefix (rows_of file) (rows_of (store (script r file)))"
  by (cases "''mosaproject1@gmail.com'' \<in> set (emails (rows_of file))")
     (simp_all add: script_duplicate script_inserts)

lemma reachable_ok: "reachable file \<Longrightarrow> store_ok file"
proof (induction rule: reachable.induct)
  case fresh
  show ?case by (simp add: store_ok_def rows_of_def table_ok_def emails_def)
next
  case (run f r)
  then show ?case by (simp add: script_ok)
qed

text \<open>The lines of three rows that the examples below use, character by character.\<close>

lemma repr_row_examples:
  "repr_row (1, ''John Doe'', ''mosaproject1@gmail.com'')
     = ''(1, 'John Doe', 'mosaproject1@gmail.com')''"
  "repr_row (5, ''John Doe'', ''mosaproject1@gmail.com'')
     = ''(5, 'John Doe', 'mosaproject1@gmail.com')''"
  "repr_row (7, ''John Doe'', ''mosaproject1@gmail.com'')
     = ''(7, 'John Doe', 'mosaproject1@gmail.com')''"
  by code_simp+

lemma repr_str_script_values:
  "repr_str ''John Doe'' = [CHR 0x27] @ ''John Doe'' @ [CHR 0x27]"
  "repr_str ''mosaproject1@gmail.com'' = [CHR 0x27] @ ''mosaproject1@gmail.com'' @ [CHR 0x27]"
  by code_simp+

section \<open>The run on a fresh store\<close>

text \<open>
  Claim C1. Run where no database file exists, the script leaves a file with the users
  table, the table holds the one row of John Doe with the address
  \<^verbatim>\<open>mosaproject1@gmail.com\<close> under the id 1, nothing is raised, and the row is what the
  run prints below the header.
\<close>

theorem fresh_store_run:
  "store (script r None) = Some \<lparr>users = Some [(1, ''John Doe'', ''mosaproject1@gmail.com'')]\<rparr>
   \<and> raised (script r None) = None
   \<and> stdout (script r None) =
       [''Users in the database:'', ''(1, 'John Doe', 'mosaproject1@gmail.com')'']"
proof -
  have none: "rows_of None = []"
    by (simp add: rows_of_def)
  have fresh: "''mosaproject1@gmail.com'' \<notin> set (emails (rows_of None))"
    by (simp add: none emails_def)
  have one: "new_rowid r [] = 1"
    by (simp add: new_rowid_def)
  show ?thesis
    by (simp add: script_inserts [OF fresh] none one repr_row_examples(1) del: repr_row.simps)
qed

section \<open>The run on a store that has the address\<close>

text \<open>
  Claim C2. When the table already holds a row with the address
  \<^verbatim>\<open>mosaproject1@gmail.com\<close>, the INSERT of the script raises the integrity error of
  the UNIQUE constraint on \<^verbatim>\<open>users.email\<close>, the error ends the run (nothing is
  printed), and the file is left exactly as it was. This is what happens to the second of
  two runs that start with no file.
\<close>

theorem duplicate_email_run:
  assumes "users d = Some rows" and "''mosaproject1@gmail.com'' \<in> set (emails rows)"
  shows "fst (execute (INSERT_INTO_users (Some ''John Doe'') (Some ''mosaproject1@gmail.com''))
                (snd (execute CREATE_TABLE_IF_NOT_EXISTS_users (connect r (Some d)))))
           = Inl (IntegrityError (UNIQUE ''users.email''))
       \<and> raised (script r (Some d)) = Some (IntegrityError (UNIQUE ''users.email''))
       \<and> stdout (script r (Some d)) = []
       \<and> store (script r (Some d)) = Some d
       \<and> raised (script r (store (script r' None))) = Some (IntegrityError (UNIQUE ''users.email''))
       \<and> store (script r (store (script r' None))) = store (script r' None)"
proof -
  have rows: "rows_of (Some d) = rows"
    using assms(1) by (simp add: rows_of_def)
  have d: "d = \<lparr>users = Some rows\<rparr>"
    using assms(1) by (cases d) simp
  have dup: "''mosaproject1@gmail.com'' \<in> set (emails (rows_of (Some d)))"
    using assms(2) rows by simp
  have ins: "fst (execute (INSERT_INTO_users (Some ''John Doe'') (Some ''mosaproject1@gmail.com''))
                (snd (execute CREATE_TABLE_IF_NOT_EXISTS_users (connect r (Some d)))))
           = Inl (IntegrityError (UNIQUE ''users.email''))"
    using assms by (simp add: connect_def create_users_def view_def insert_users_def)
  have fresh: "''mosaproject1@gmail.com'' \<notin> set (emails (rows_of None))"
    by (simp add: rows_of_def emails_def)
  have first: "store (script r' None)
                 = Some \<lparr>users = Some [(1, ''John Doe'', ''mosaproject1@gmail.com'')]\<rparr>"
    by (simp add: script_inserts [OF fresh] new_rowid_def rows_of_def)
  have dup2: "''mosaproject1@gmail.com'' \<in> set (emails (rows_of (store (script r' None))))"
    by (simp add: first emails_def)
  have again: "raised (script r (store (script r' None))) = Some (IntegrityError (UNIQUE ''users.email''))"
    "store (script r (store (script r' None))) = store (script r' None)"
    by (simp_all add: script_duplicate [OF dup2]) (simp add: first)
  show ?thesis
    using ins again by (simp add: script_duplicate [OF dup] rows) (simp add: d)
qed

text \<open>The hypotheses of C2 hold of a table of two rows, the second with the address.\<close>

theorem duplicate_email_run_witness:
  "users \<lparr>users = Some [(7, ''Ann'', ''a@x.com''), (3, ''J'', ''mosaproject1@gmail.com'')]\<rparr>
     = Some [(7, ''Ann'', ''a@x.com''), (3, ''J'', ''mosaproject1@gmail.com'')]
   \<and> ''mosaproject1@gmail.com'' \<in>
       set (emails [(7, ''Ann'', ''a@x.com''), (3, ''J'', ''mosaproject1@gmail.com'')])
   \<and> raised (script least_free_source
        (Some \<lparr>users = Some [(7, ''Ann'', ''a@x.com''), (3, ''J'', ''mosaproject1@gmail.com'')]\<rparr>))
       = Some (IntegrityError (UNIQUE ''users.email''))
   \<and> store (script least_free_source
        (Some \<lparr>users = Some [(7, ''Ann'', ''a@x.com''), (3, ''J'', ''mosaproject1@gmail.com'')]\<rparr>))
       = Some \<lparr>users = Some [(7, ''Ann'', ''a@x.com''), (3, ''J'', ''mosaproject1@gmail.com'')]\<rparr>"
proof -
  let ?rows = "[(7, ''Ann'', ''a@x.com''), (3, ''J'', ''mosaproject1@gmail.com'')] :: row list"
  have h1: "users \<lparr>users = Some ?rows\<rparr> = Some ?rows" by simp
  have h2: "''mosaproject1@gmail.com'' \<in> set (emails ?rows)" by (simp add: emails_def)
  show ?thesis
    using h1 h2 duplicate_email_run [OF h1 h2, of least_free_source least_free_source] by simp
qed

section \<open>Closing the connection\<close>

text \<open>
  Claim C3, as amended. The connection is closed by the last statement of a run that
  raises nothing, and only then: on the run that the constraint violation ends,
  \<^verbatim>\<open>connection.close()\<close> is not reached and the handle is open when the script stops.
\<close>

theorem close_only_on_success:
  "is_open (conn (script r file)) = (raised (script r file) \<noteq> None)"
  by (cases "''mosaproject1@gmail.com'' \<in> set (emails (rows_of file))")
     (simp_all add: script_duplicate script_inserts)

text \<open>
  C3 as it is written fails on the store that a first run leaves: the second run raises
  and its connection is still open.
\<close>

theorem close_on_failure_counterexample:
  "raised (script least_free_source
      (Some \<lparr>users = Some [(1, ''John Doe'', ''mosaproject1@gmail.com'')]\<rparr>))
     = Some (IntegrityError (UNIQUE ''users.email''))
   \<and> is_open (conn (script least_free_source
      (Some \<lparr>users = Some [(1, ''John Doe'', ''mosaproject1@gmail.com'')]\<rparr>)))"
proof -
  have dup: "''mosaproject1@gmail.com'' \<in> set (emails (rows_of
      (Some \<lparr>users = Some [(1, ''John Doe'', ''mosaproject1@gmail.com'')]\<rparr>)))"
    by (simp add: emails_def)
  show ?thesis
    by (simp add: script_duplicate [OF dup])
qed

section \<open>Creating the table\<close>

text \<open>
  Claim C4. The CREATE statement raises nothing; on a connection that sees the users table
  it changes nothing at all, neither the rows nor the file; and executing it twice gives
  what executing it once gives.
\<close>

theorem create_table_idempotent:
  "fst (execute CREATE_TABLE_IF_NOT_EXISTS_users c) = Inr []
   \<and> (users (view c) \<noteq> None \<longrightarrow> snd (execute CREATE_TABLE_IF_NOT_EXISTS_users c) = c)
   \<and> execute CREATE_TABLE_IF_NOT_EXISTS_users (snd (execute CREATE_TABLE_IF_NOT_EXISTS_users c))
       = execute CREATE_TABLE_IF_NOT_EXISTS_users c"
  by (auto simp: view_def create_users_def split: option.splits)

text \<open>A connection to the store of a first run sees the table, and CREATE leaves it as it is.\<close>

theorem create_table_idempotent_witness:
  "users (view (connect least_free_source
      (Some \<lparr>users = Some [(1, ''John Doe'', ''mosaproject1@gmail.com'')]\<rparr>))) \<noteq> None
   \<and> snd (execute CREATE_TABLE_IF_NOT_EXISTS_users
            (connect least_free_source
               (Some \<lparr>users = Some [(1, ''John Doe'', ''mosaproject1@gmail.com'')]\<rparr>)))
       = connect least_free_source
           (Some \<lparr>users = Some [(1, ''John Doe'', ''mosaproject1@gmail.com'')]\<rparr>)"
proof -
  let ?c = "connect least_free_source
              (Some \<lparr>users = Some [(1, ''John Doe'', ''mosaproject1@gmail.com'')]\<rparr>)"
  have h: "users (view ?c) \<noteq> None" by (simp add: view_def connect_def)
  show ?thesis
    using h create_table_idempotent [of ?c] by blast
qed

section \<open>What is printed\<close>



section \<open>The NOT NULL constraint on the name\<close>

text \<open>
  Claim C6, as amended. On a connection that sees the users table, an INSERT whose name is
  NULL raises the integrity error of the NOT NULL constraint on \<^verbatim>\<open>users.name\<close> and
  leaves the table and the file as they were. The empty string is not NULL: with an email
  that is not in the table yet, an INSERT whose name is empty raises nothing and adds the
  row, under the id that the engine assigns.
\<close>

theorem null_name_rejected:
  assumes "users (view c) = Some rows"
  shows "fst (execute (INSERT_INTO_users None email) c) = Inl (IntegrityError (NOT_NULL ''users.name''))
       \<and> view (snd (execute (INSERT_INTO_users None email) c)) = view c
       \<and> durable (snd (execute (INSERT_INTO_users None email) c)) = durable c
       \<and> (e \<notin> set (emails rows) \<longrightarrow>
            fst (execute (INSERT_INTO_users (Some '''') (Some e)) c) = Inr []
          \<and> users (view (snd (execute (INSERT_INTO_users (Some '''') (Some e)) c)))
              = Some (rows @ [(new_rowid (prng c) rows, '''', e)]))"
  using assms by (simp add: insert_users_def view_def)

text \<open>C6 as amended, on the store that a first run leaves: the row with the empty name gets the id 2.\<close>

theorem null_name_rejected_witness:
  "users (view (connect least_free_source
      (Some \<lparr>users = Some [(1, ''John Doe'', ''mosaproject1@gmail.com'')]\<rparr>)))
     = Some [(1, ''John Doe'', ''mosaproject1@gmail.com'')]
   \<and> ''a@x.com'' \<notin> set (emails [(1, ''John Doe'', ''mosaproject1@gmail.com'')])
   \<and> fst (execute (INSERT_INTO_users None (Some ''a@x.com''))
           (connect least_free_source
              (Some \<lparr>users = Some [(1, ''John Doe'', ''mosaproject1@gmail.com'')]\<rparr>)))
       = Inl (IntegrityError (NOT_NULL ''users.name''))
   \<and> users (view (snd (execute (INSERT_INTO_users (Some '''') (Some ''a@x.com''))
           (connect least_free_source
              (Some \<lparr>users = Some [(1, ''John Doe'', ''mosaproject1@gmail.com'')]\<rparr>)))))
       = Some [(1, ''John Doe'', ''mosaproject1@gmail.com''), (2, '''', ''a@x.com'')]"
proof -
  let ?rows = "[(1, ''John Doe'', ''mosaproject1@gmail.com'')] :: row list"
  let ?c = "connect least_free_source (Some \<lparr>users = Some ?rows\<rparr>)"
  have h1: "users (view ?c) = Some ?rows" by (simp add: view_def connect_def)
  have h2: "''a@x.com'' \<notin> set (emails ?rows)" by (simp add: emails_def)
  have n: "new_rowid (prng ?c) ?rows = 2"
    by (simp add: new_rowid_def MAX_ROWID_def)
  show ?thesis
    using h1 h2 n null_name_rejected [OF h1, of "Some ''a@x.com''" "''a@x.com''"] by simp
qed

text \<open>
  C6 as it is written fails for the empty name: on an empty table the INSERT succeeds and
  the row is in the transaction's copy of the table.
\<close>

theorem empty_name_counterexample:
  "execute (INSERT_INTO_users (Some '''') (Some ''a@x.com''))
     (connect least_free_source (Some \<lparr>users = Some []\<rparr>))
   = (Inr [], \<lparr>durable = \<lparr>users = Some []\<rparr>,
               pending = Some \<lparr>users = Some [(1, '''', ''a@x.com'')]\<rparr>,
               is_open = True, prng = least_free_source\<rparr>)"
  by (simp add: connect_def view_def insert_users_def emails_def new_rowid_def)

section \<open>Commit before read\<close>

text \<open>
  Claim C7. In a run that raises nothing, the connection is, when the SELECT has read the
  rows, one with no transaction pending and with the new row of John Doe already in what
  is on disk: the commit came before the read. What is printed is the header and the rows
  that are on disk at that moment, among them the line of the new row, written
  \<^verbatim>\<open>(id, 'John Doe', 'mosaproject1@gmail.com')\<close>; and this is the file the run leaves.
\<close>

theorem insert_committed_before_read:
  assumes "raised (script r file) = None"
  shows "\<exists>c. read_from (script r file) = Some c
             \<and> pending c = None
             \<and> (new_rowid r (rows_of file), ''John Doe'', ''mosaproject1@gmail.com'')
                  \<in> set (rows_of (Some (durable c)))
             \<and> stdout (script r file) =
                  ''Users in the database:'' #
                  map repr_row (sort_key fst (rows_of (Some (durable c))))
             \<and> (''('' @ repr_int (new_rowid r (rows_of file))
                     @ '', 'John Doe', 'mosaproject1@gmail.com')'')
                  \<in> set (stdout (script r file))
             \<and> store (script r file) = Some (durable c)"
proof -
  let ?new = "(new_rowid r (rows_of file), ''John Doe'', ''mosaproject1@gmail.com'')"
  have fresh: "''mosaproject1@gmail.com'' \<notin> set (emails (rows_of file))"
    using assms by (simp add: raised_None_iff)
  have line: "repr_row ?new =
      ''('' @ repr_int (new_rowid r (rows_of file)) @ '', 'John Doe', 'mosaproject1@gmail.com')''"
    by (simp add: repr_str_script_values)
  have "repr_row ?new \<in> set (map repr_row (sort_key fst (rows_of file @ [?new])))"
    by (simp del: repr_row.simps)
  then have printed: "(''('' @ repr_int (new_rowid r (rows_of file))
                     @ '', 'John Doe', 'mosaproject1@gmail.com')'')
        \<in> set (map repr_row (sort_key fst (rows_of file @ [?new])))"
    by (simp only: line)
  show ?thesis
    using printed by (simp add: script_inserts [OF fresh] del: repr_row.simps)
qed

text \<open>C7 at the run on no file, where the line is that of the id 1.\<close>

theorem insert_committed_before_read_witness:
  "raised (script least_free_source None) = None
   \<and> (\<exists>c. read_from (script least_free_source None) = Some c
          \<and> pending c = None
          \<and> (1, ''John Doe'', ''mosaproject1@gmail.com'') \<in> set (rows_of (Some (durable c)))
          \<and> ''(1, 'John Doe', 'mosaproject1@gmail.com')'' \<in> set (stdout (script least_free_source None)))"
proof -
  have h: "raised (script least_free_source None) = None"
    by (simp add: raised_None_iff rows_of_def emails_def)
  have n: "new_rowid least_free_source (rows_of None) = 1"
    by (simp add: new_rowid_def rows_of_def)
  have one: "repr_int 1 = ''1''"
    by code_simp
  show ?thesis
    using h insert_committed_before_read [OF h] unfolding n one by auto
qed

section \<open>Distinct ids, distinct emails\<close>

text \<open>
  Claim C8. In every file that runs of the script produce from no file, no two rows of the
  users table share an id and no two share an email. A run keeps this true of any file of
  which it is true, and the rows that were there stay, ids included, at the front of the
  table. Every operation on a connection keeps it true of the file and of the working
  copy: any statement executed, commit, close. An INSERT whose email is in the table
  already raises an integrity error and leaves the table as it is.
\<close>

theorem users_invariant:
  "(reachable file \<longrightarrow> store_ok file)
   \<and> (store_ok file \<longrightarrow>
        store_ok (store (script r file)) \<and> prefix (rows_of file) (rows_of (store (script r file))))
   \<and> (conn_ok c \<longrightarrow>
        conn_ok (snd (execute st c)) \<and> conn_ok (commit c) \<and> conn_ok (close c))
   \<and> (users (view c) = Some rows \<and> e \<in> set (emails rows) \<longrightarrow>
        (\<exists>k. fst (execute (INSERT_INTO_users name (Some e)) c) = Inl (IntegrityError k))
        \<and> view (snd (execute (INSERT_INTO_users name (Some e)) c)) = view c)"
proof -
  have dup: "users (view c) = Some rows \<and> e \<in> set (emails rows) \<longrightarrow>
        (\<exists>k. fst (execute (INSERT_INTO_users name (Some e)) c) = Inl (IntegrityError k))
        \<and> view (snd (execute (INSERT_INTO_users name (Some e)) c)) = view c"
    by (cases name) (simp_all add: insert_users_def view_def)
  show ?thesis
    using dup
    by (simp add: reachable_ok script_ok script_keeps_rows execute_ok commit_ok close_ok)
qed

text \<open>C8 on the file of the first run and on a connection to it.\<close>

theorem users_invariant_witness:
  "reachable (store (script least_free_source None))
   \<and> store_ok (store (script least_free_source None))
   \<and> store_ok (store (script least_free_source (store (script least_free_source None))))
   \<and> conn_ok (connect least_free_source (store (script least_free_source None)))
   \<and> conn_ok (commit (connect least_free_source (store (script least_free_source None))))
   \<and> users (view (connect least_free_source (store (script least_free_source None))))
        = Some [(1, ''John Doe'', ''mosaproject1@gmail.com'')]
   \<and> ''mosaproject1@gmail.com'' \<in> set (emails [(1, ''John Doe'', ''mosaproject1@gmail.com'')])
   \<and> view (snd (execute (INSERT_INTO_users (Some ''Jo'') (Some ''mosaproject1@gmail.com''))
                  (connect least_free_source (store (script least_free_source None)))))
       = view (connect least_free_source (store (script least_free_source None)))"
proof -
  let ?f = "store (script least_free_source None)"
  let ?c = "connect least_free_source ?f"
  let ?rows = "[(1, ''John Doe'', ''mosaproject1@gmail.com'')] :: row list"
  have fresh: "''mosaproject1@gmail.com'' \<notin> set (emails (rows_of None))"
    by (simp add: rows_of_def emails_def)
  have f: "?f = Some \<lparr>users = Some ?rows\<rparr>"
    by (simp add: script_inserts [OF fresh] new_rowid_def rows_of_def)
  have h1: "reachable ?f" by (rule reachable.run) (rule reachable.fresh)
  have h2: "users (view ?c) = Some ?rows" by (simp add: f view_def connect_def)
  have h3: "''mosaproject1@gmail.com'' \<in> set (emails ?rows)" by (simp add: emails_def)
  have h4: "conn_ok ?c"
    by (simp add: f conn_ok_def db_ok_def table_ok_def emails_def view_def connect_def)
  have h5: "store_ok ?f"
    by (simp add: f store_ok_def table_ok_def emails_def)
  show ?thesis
    using h1 h2 h3 h4 h5
      users_invariant [of ?f least_free_source ?c "SELECT_FROM_users" ?rows
        "''mosaproject1@gmail.com''" "Some ''Jo''"]
    by blast
qed

section \<open>What a run leaves alone\<close>

text \<open>
  Claim C9. When no row of the table has the address \<^verbatim>\<open>mosaproject1@gmail.com\<close>, the run
  raises nothing and the table it leaves is the table it found, every row as it was and in
  its place, followed by one new row: John Doe with the address, under an id that no row
  had. A table that conformed to the schema still does. The id is 1 in an empty table and
  one more than the largest id below \<open>2^63 - 1\<close>; at that largest id it is the one the
  random search ends with, between 1 and \<open>2^62\<close>.
\<close>

theorem run_adds_one_row:
  assumes "''mosaproject1@gmail.com'' \<notin> set (emails (rows_of file))"
  shows "raised (script r file) = None
       \<and> rows_of (store (script r file)) =
           rows_of file @ [(new_rowid r (rows_of file), ''John Doe'', ''mosaproject1@gmail.com'')]
       \<and> new_rowid r (rows_of file) \<notin> fst ` set (rows_of file)
       \<and> (table_ok (rows_of file) \<longrightarrow> table_ok (rows_of (store (script r file))))
       \<and> (sequential (rows_of file) \<longrightarrow>
            new_rowid r (rows_of file) =
              (if rows_of file = [] then 1 else Max (set (map fst (rows_of file))) + 1))
       \<and> (\<not> sequential (rows_of file) \<and> length (rows_of file) < 2 ^ 62 \<longrightarrow>
            1 \<le> new_rowid r (rows_of file) \<and> new_rowid r (rows_of file) \<le> 2 ^ 62)"
proof -
  have range: "\<not> sequential (rows_of file) \<and> length (rows_of file) < 2 ^ 62 \<longrightarrow>
            1 \<le> new_rowid r (rows_of file) \<and> new_rowid r (rows_of file) \<le> 2 ^ 62"
    using random_rowid_props(2,3) [where r = r and ids = "map fst (rows_of file)"]
    by (auto simp: sequential_def new_rowid_def Let_def)
  show ?thesis
    using assms new_rowid_fresh [of r "rows_of file"] range
    by (simp add: script_inserts table_ok_append new_rowid_sequential)
qed

text \<open>
  C9 on a table of two rows, where the new row gets the id 5, and on a table whose largest
  id is \<open>2^63 - 1\<close>, with a random source that draws 7 first.
\<close>

theorem run_adds_one_row_witness:
  "''mosaproject1@gmail.com'' \<notin>
      set (emails (rows_of (Some \<lparr>users = Some [(4, ''Ann'', ''a@x.com''), (2, ''Bob'', ''b@y.com'')]\<rparr>)))
   \<and> sequential (rows_of (Some \<lparr>users = Some [(4, ''Ann'', ''a@x.com''), (2, ''Bob'', ''b@y.com'')]\<rparr>))
   \<and> raised (script least_free_source
        (Some \<lparr>users = Some [(4, ''Ann'', ''a@x.com''), (2, ''Bob'', ''b@y.com'')]\<rparr>)) = None
   \<and> rows_of (store (script least_free_source
        (Some \<lparr>users = Some [(4, ''Ann'', ''a@x.com''), (2, ''Bob'', ''b@y.com'')]\<rparr>)))
       = [(4, ''Ann'', ''a@x.com''), (2, ''Bob'', ''b@y.com''),
          (5, ''John Doe'', ''mosaproject1@gmail.com'')]
   \<and> ''mosaproject1@gmail.com'' \<notin>
      set (emails (rows_of (Some \<lparr>users = Some [(9223372036854775807, ''Ann'', ''a@x.com'')]\<rparr>)))
   \<and> \<not> sequential (rows_of (Some \<lparr>users = Some [(9223372036854775807, ''Ann'', ''a@x.com'')]\<rparr>))
   \<and> rows_of (store (script (first_candidate 7 least_free_source)
        (Some \<lparr>users = Some [(9223372036854775807, ''Ann'', ''a@x.com'')]\<rparr>)))
       = [(9223372036854775807, ''Ann'', ''a@x.com''),
          (7, ''John Doe'', ''mosaproject1@gmail.com'')]"
proof -
  let ?f = "Some \<lparr>users = Some [(4, ''Ann'', ''a@x.com''), (2, ''Bob'', ''b@y.com'')]\<rparr>"
  let ?g = "Some \<lparr>users = Some [(9223372036854775807, ''Ann'', ''a@x.com'')]\<rparr>"
  have h: "''mosaproject1@gmail.com'' \<notin> set (emails (rows_of ?f))"
    by (simp add: emails_def)
  have s: "sequential (rows_of ?f)"
    by (simp add: sequential_def MAX_ROWID_def)
  have h': "''mosaproject1@gmail.com'' \<notin> set (emails (rows_of ?g))"
    by (simp add: emails_def)
  have s': "\<not> sequential (rows_of ?g)"
    by (simp add: sequential_def MAX_ROWID_def)
  have n': "new_rowid (first_candidate 7 least_free_source) (rows_of ?g) = 7"
    by (simp add: new_rowid_def MAX_ROWID_def random_rowid_first_candidate)
  show ?thesis
    using h s h' s' n' run_adds_one_row [OF h, of least_free_source]
      run_adds_one_row [OF h', of "first_candidate 7 least_free_source"]
    by simp
qed

section \<open>Determinism\<close>




end
